theory Spec2Isabelle
  imports Main
begin

section \<open>The power switch and the light bulb\<close>

text \<open>
  The program in \<^verbatim>\<open>src/example/after-using-arjan-fanboy.py\<close> has a device class
  (\<^verbatim>\<open>LightBulb\<close>), a controller dataclass (\<^verbatim>\<open>ElectricPowerSwitch\<close>) that talks to the
  device through the structural protocol \<^verbatim>\<open>Switchable\<close>, and a \<^verbatim>\<open>main\<close> routine.

  Everything the program does besides flipping one boolean is an effect on the world
  outside the controller (for the light bulb: text written to standard output). The
  world is threaded explicitly: a method that returns \<^verbatim>\<open>None\<close> and has an effect is a
  function from the world before the call to the world after it.
\<close>

subsection \<open>Standard output\<close>

text \<open>
  Standard output is the text written so far. \<^verbatim>\<open>print(s)\<close> with one string argument
  and the default \<^verbatim>\<open>end\<close> writes \<^verbatim>\<open>s\<close> followed by one newline character.
\<close>

type_synonym stdout = string

definition newline :: char where
  "newline = CHR 0x0A"

definition print :: "string \<Rightarrow> stdout \<Rightarrow> stdout" where
  "print s out = out @ s @ [newline]"

text \<open>
  Reading the lines of a text back (each line ends at a newline; a last line without a
  newline still counts when it is not empty). \<open>cur\<close> is the line being read.
\<close>

fun split_lines :: "string \<Rightarrow> string \<Rightarrow> string list" where
  "split_lines cur [] = (if cur = [] then [] else [cur])"
| "split_lines cur (c # cs) =
     (if c = newline then cur # split_lines [] cs else split_lines (cur @ [c]) cs)"

definition lines_of :: "stdout \<Rightarrow> string list" where
  "lines_of out = split_lines [] out"

subsection \<open>The Switchable protocol\<close>

text \<open>
  \<^verbatim>\<open>class Switchable(Protocol)\<close> asks for two methods, \<^verbatim>\<open>turn_on\<close> and \<^verbatim>\<open>turn_off\<close>, both
  without arguments and both returning \<^verbatim>\<open>None\<close>. An object that conforms is the pair of
  its two methods, each acting on the world \<open>'w\<close> the object lives in.
\<close>

record 'w Switchable =
  turn_on :: "'w \<Rightarrow> 'w"
  turn_off :: "'w \<Rightarrow> 'w"

subsection \<open>LightBulb\<close>

text \<open>
  \<^verbatim>\<open>LightBulb\<close> has no fields; its two methods print one fixed text each.
\<close>

definition LightBulb_turn_on :: "stdout \<Rightarrow> stdout" where
  "LightBulb_turn_on out = print ''LightBulb: turned on...'' out"

definition LightBulb_turn_off :: "stdout \<Rightarrow> stdout" where
  "LightBulb_turn_off out = print ''LightBulb: turned off...'' out"

definition LightBulb :: "stdout Switchable" where
  "LightBulb = \<lparr>turn_on = LightBulb_turn_on, turn_off = LightBulb_turn_off\<rparr>"

subsection \<open>ElectricPowerSwitch\<close>

text \<open>
  The dataclass has the fields \<^verbatim>\<open>device: Switchable\<close> and \<^verbatim>\<open>is_on: bool = False\<close>. Its
  generated constructor takes the device and, optionally, \<^verbatim>\<open>is_on\<close>.
\<close>

record 'w ElectricPowerSwitch =
  device :: "'w Switchable"
  is_on :: bool

definition ElectricPowerSwitch_init ::
  "'w Switchable \<Rightarrow> bool option \<Rightarrow> 'w ElectricPowerSwitch" where
  "ElectricPowerSwitch_init d given =
     \<lparr>device = d, is_on = (case given of None \<Rightarrow> False | Some b \<Rightarrow> b)\<rparr>"

text \<open>
  \<^verbatim>\<open>press\<close> mutates \<open>self\<close> and, through the device, the world; it returns both as they are
  after the call. The first branch is the one that ends in the early \<^verbatim>\<open>return\<close>.
\<close>

definition press :: "'w ElectricPowerSwitch \<Rightarrow> 'w \<Rightarrow> 'w ElectricPowerSwitch \<times> 'w" where
  "press self w =
     (if is_on self then
        (let w1 = turn_off (device self) w;
             self1 = self\<lparr>is_on := False\<rparr>
         in (self1, w1))
      else
        (let w1 = turn_on (device self) w;
             self1 = self\<lparr>is_on := True\<rparr>
         in (self1, w1)))"

subsection \<open>main\<close>

text \<open>
  \<^verbatim>\<open>main\<close> builds a bulb and a switch on it and presses twice. Its locals are dropped when
  it returns; what remains is standard output.
\<close>

definition main :: "stdout \<Rightarrow> stdout" where
  "main out =
     (let bulb = LightBulb;
          switch = ElectricPowerSwitch_init bulb None;
          (switch1, out1) = press switch out;
          (switch2, out2) = press switch1 out1
      in out2)"

subsection \<open>Sequences of calls\<close>

text \<open>\<open>presses n\<close> is \<open>n\<close> calls of \<^verbatim>\<open>press\<close> on the same controller, one after the other.\<close>

fun presses :: "nat \<Rightarrow> 'w ElectricPowerSwitch \<Rightarrow> 'w \<Rightarrow> 'w ElectricPowerSwitch \<times> 'w" where
  "presses 0 self w = (self, w)"
| "presses (Suc n) self w = (case press self w of (self1, w1) \<Rightarrow> presses n self1 w1)"

text \<open>
  To speak about which methods of a device were called, and in which order, a device is
  wrapped so that every call is also written to a log kept beside the device's own world.
  The wrapped object conforms to the protocol like the one inside it.
\<close>

datatype call = Turn_on | Turn_off

definition logged :: "'w Switchable \<Rightarrow> (call list \<times> 'w) Switchable" where
  "logged d =
     \<lparr>turn_on = (\<lambda>(log, w). (log @ [Turn_on], turn_on d w)),
      turn_off = (\<lambda>(log, w). (log @ [Turn_off], turn_off d w))\<rparr>"

text \<open>
  A call on a device, by name, and a sequence of such calls made one after the other.
\<close>

fun invoke :: "'w Switchable \<Rightarrow> call \<Rightarrow> 'w \<Rightarrow> 'w" where
  "invoke d Turn_on w = turn_on d w"
| "invoke d Turn_off w = turn_off d w"

fun invoke_all :: "'w Switchable \<Rightarrow> call list \<Rightarrow> 'w \<Rightarrow> 'w" where
  "invoke_all d [] w = w"
| "invoke_all d (c # cs) w = invoke_all d cs (invoke d c w)"

text \<open>
  The line each call is expected to leave on standard output, for stating what the light
  bulb writes; that the bulb's methods write exactly these is proved below, not assumed.
\<close>

fun notification :: "call \<Rightarrow> string" where
  "notification Turn_on = ''LightBulb: turned on...''"
| "notification Turn_off = ''LightBulb: turned off...''"

subsection \<open>Devices that may raise\<close>

text \<open>
  The protocol says nothing about exceptions, and Python lets any method raise. For
  statements about a device call that does not come back, a method's result is an outcome:
  it returns, or it raises an exception, in both cases with the world as the call left it.
\<close>

datatype ('e, 'w) outcome = Returns 'w | Raises 'e 'w

fun world_of :: "('e, 'w) outcome \<Rightarrow> 'w" where
  "world_of (Returns w) = w"
| "world_of (Raises e w) = w"

fun returned :: "('e, 'w) outcome \<Rightarrow> bool" where
  "returned (Returns w) = True"
| "returned (Raises e w) = False"

record ('e, 'w) Switchable_exc =
  turn_on_exc :: "'w \<Rightarrow> ('e, 'w) outcome"
  turn_off_exc :: "'w \<Rightarrow> ('e, 'w) outcome"

record ('e, 'w) ElectricPowerSwitch_exc =
  device_exc :: "('e, 'w) Switchable_exc"
  is_on_exc :: bool

text \<open>
  \<^verbatim>\<open>press\<close> again, statement by statement, on such a device. There is no \<^verbatim>\<open>try\<close> in the
  method: an exception raised by the device call leaves \<^verbatim>\<open>press\<close> at that statement, so the
  assignment to \<^verbatim>\<open>self.is_on\<close> on the next line is not reached and \<open>self\<close> stays as it was.
\<close>

definition press_exc ::
  "('e, 'w) ElectricPowerSwitch_exc \<Rightarrow> 'w \<Rightarrow>
     ('e, 'w) ElectricPowerSwitch_exc \<times> ('e, 'w) outcome" where
  "press_exc self w =
     (if is_on_exc self then
        (case turn_off_exc (device_exc self) w of
           Raises e w1 \<Rightarrow> (self, Raises e w1)
         | Returns w1 \<Rightarrow> (let self1 = self\<lparr>is_on_exc := False\<rparr> in (self1, Returns w1)))
      else
        (case turn_on_exc (device_exc self) w of
           Raises e w1 \<Rightarrow> (self, Raises e w1)
         | Returns w1 \<Rightarrow> (let self1 = self\<lparr>is_on_exc := True\<rparr> in (self1, Returns w1))))"

text \<open>A device whose methods always return, seen as one that may raise.\<close>

definition returning :: "'w Switchable \<Rightarrow> ('e, 'w) Switchable_exc" where
  "returning d =
     \<lparr>turn_on_exc = (\<lambda>w. Returns (turn_on d w)),
      turn_off_exc = (\<lambda>w. Returns (turn_off d w))\<rparr>"

text \<open>
  The call log for such devices: the call is written down when it is made, whether it
  then returns or raises.
\<close>

fun entered :: "call list \<Rightarrow> call \<Rightarrow> ('e, 'w) outcome \<Rightarrow> ('e, call list \<times> 'w) outcome" where
  "entered log c (Returns w) = Returns (log @ [c], w)"
| "entered log c (Raises e w) = Raises e (log @ [c], w)"

definition logged_exc :: "('e, 'w) Switchable_exc \<Rightarrow> ('e, call list \<times> 'w) Switchable_exc" where
  "logged_exc d =
     \<lparr>turn_on_exc = (\<lambda>(log, w). entered log Turn_on (turn_on_exc d w)),
      turn_off_exc = (\<lambda>(log, w). entered log Turn_off (turn_off_exc d w))\<rparr>"

fun invoke_exc :: "('e, 'w) Switchable_exc \<Rightarrow> call \<Rightarrow> 'w \<Rightarrow> ('e, 'w) outcome" where
  "invoke_exc d Turn_on w = turn_on_exc d w"
| "invoke_exc d Turn_off w = turn_off_exc d w"

text \<open>
  A device that conforms to the protocol and whose two methods raise
  \<^verbatim>\<open>RuntimeError\<close> without writing anything.
\<close>

datatype error = RuntimeError

definition Broken :: "(error, stdout) Switchable_exc" where
  "Broken =
     \<lparr>turn_on_exc = (\<lambda>out. Raises RuntimeError out),
      turn_off_exc = (\<lambda>out. Raises RuntimeError out)\<rparr>"

section \<open>Properties\<close>

subsection \<open>Helper facts\<close>

lemma press_unfold:
  "press self w =
     (self\<lparr>is_on := \<not> is_on self\<rparr>,
      (if is_on self then turn_off (device self) w else turn_on (device self) w))"
  by (simp add: press_def Let_def)

lemma is_on_presses:
  "is_on (fst (presses n self w)) = (if even n then is_on self else \<not> is_on self)"
  by (induction n arbitrary: self w) (simp_all add: press_unfold)

lemma newline_notin_notification: "newline \<notin> set (notification c)"
  by (cases c) (simp_all add: newline_def)

lemma split_lines_line:
  "newline \<notin> set s \<Longrightarrow> split_lines cur (s @ newline # rest) = (cur @ s) # split_lines [] rest"
  by (induction s arbitrary: cur) auto

lemma lines_of_notifications:
  "lines_of (concat (map (\<lambda>c. notification c @ [newline]) cs)) = map notification cs"
proof (induction cs)
  case Nil
  show ?case by (simp add: lines_of_def)
next
  case (Cons c cs)
  have "split_lines [] (notification c @ newline # concat (map (\<lambda>c. notification c @ [newline]) cs))
        = ([] @ notification c) # split_lines [] (concat (map (\<lambda>c. notification c @ [newline]) cs))"
    by (rule split_lines_line) (rule newline_notin_notification)
  with Cons show ?case by (simp add: lines_of_def)
qed

lemma invoke_LightBulb: "invoke LightBulb c out = out @ notification c @ [newline]"
  by (cases c) (simp_all add: LightBulb_def LightBulb_turn_on_def LightBulb_turn_off_def print_def)

lemma invoke_all_LightBulb:
  "invoke_all LightBulb cs out = out @ concat (map (\<lambda>c. notification c @ [newline]) cs)"
  by (induction cs arbitrary: out) (simp_all add: invoke_LightBulb)

lemma press_exc_unfold:
  "press_exc self w =
     (case invoke_exc (device_exc self) (if is_on_exc self then Turn_off else Turn_on) w of
        Returns w1 \<Rightarrow> (self\<lparr>is_on_exc := \<not> is_on_exc self\<rparr>, Returns w1)
      | Raises e w1 \<Rightarrow> (self, Raises e w1))"
  by (simp add: press_exc_def Let_def split: outcome.split)

lemma press_exc_returning:
  "press_exc \<lparr>device_exc = returning (device self), is_on_exc = is_on self\<rparr> w =
     (\<lparr>device_exc = returning (device self), is_on_exc = is_on (fst (press self w))\<rparr>,
      Returns (snd (press self w)))"
  by (simp add: press_exc_unfold press_unfold returning_def)

lemma press_exc_log:
  "fst (world_of (snd (press_exc \<lparr>device_exc = logged_exc d, is_on_exc = b\<rparr> (log, v)))) =
     log @ [if b then Turn_off else Turn_on]"
proof (cases b)
  case True
  then show ?thesis
    by (cases "turn_off_exc d v") (simp_all add: press_exc_unfold logged_exc_def)
next
  case False
  then show ?thesis
    by (cases "turn_on_exc d v") (simp_all add: press_exc_unfold logged_exc_def)
qed

lemma press_exc_flag:
  "(is_on_exc (fst (press_exc self w)) \<noteq> is_on_exc self) = returned (snd (press_exc self w))"
  by (cases "invoke_exc (device_exc self) (if is_on_exc self then Turn_off else Turn_on) w")
     (simp_all add: press_exc_unfold)

subsection \<open>The claims\<close>

text \<open>
  C1: A controller built without an \<^verbatim>\<open>is_on\<close> argument starts with the flag false, and after
  \<open>n\<close> calls of \<^verbatim>\<open>press\<close> the flag is true exactly when \<open>n\<close> is odd, whatever the device and
  the world are.
\<close>

theorem fresh_presses_parity:
  "\<not> is_on (ElectricPowerSwitch_init d None) \<and>
   is_on (fst (presses n (ElectricPowerSwitch_init d None) w)) = odd n"
  by (simp add: is_on_presses) (simp add: ElectricPowerSwitch_init_def)

text \<open>
  C2: The claim says that pressing while off calls \<^verbatim>\<open>turn_off\<close> and then \<^verbatim>\<open>turn_on\<close> on the
  device. On a fresh controller around a logged light bulb, one press leaves the log
  \<open>[Turn_on]\<close>: \<^verbatim>\<open>turn_off\<close> is not called.
\<close>

theorem press_off_counterexample:
  "\<not> is_on (ElectricPowerSwitch_init (logged LightBulb) None) \<and>
   fst (snd (press (ElectricPowerSwitch_init (logged LightBulb) None) ([], []))) = [Turn_on] \<and>
   fst (snd (press (ElectricPowerSwitch_init (logged LightBulb) None) ([], []))) \<noteq> [Turn_off, Turn_on]"
  by (simp add: press_unfold ElectricPowerSwitch_init_def logged_def)

text \<open>
  C2, as amended: Pressing while off calls \<^verbatim>\<open>turn_on\<close> of the device, once, and nothing else on
  it, and sets the flag: the world after the press is the world after that one call, and a
  logged device has exactly \<open>Turn_on\<close> added to its log.
\<close>

theorem press_when_off:
  assumes "\<not> is_on self"
  shows "press self w = (self\<lparr>is_on := True\<rparr>, turn_on (device self) w) \<and>
         press \<lparr>device = logged d, is_on = is_on self\<rparr> (log, v) =
           (\<lparr>device = logged d, is_on = True\<rparr>, (log @ [Turn_on], turn_on d v))"
  using assms by (simp add: press_unfold logged_def)

theorem press_when_off_witness:
  "\<not> is_on (ElectricPowerSwitch_init LightBulb None) \<and>
   press (ElectricPowerSwitch_init LightBulb None) [] =
     (\<lparr>device = LightBulb, is_on = True\<rparr>, ''LightBulb: turned on...'' @ [newline]) \<and>
   press (ElectricPowerSwitch_init (logged LightBulb) None) ([], []) =
     (\<lparr>device = logged LightBulb, is_on = True\<rparr>,
      ([Turn_on], ''LightBulb: turned on...'' @ [newline]))"
proof -
  have h: "\<not> is_on (ElectricPowerSwitch_init LightBulb None)"
    by (simp add: ElectricPowerSwitch_init_def)
  show ?thesis
    using h press_when_off [OF h, where w = "[]" and d = LightBulb and log = "[]" and v = "[]"]
    by (simp add: ElectricPowerSwitch_init_def LightBulb_def LightBulb_turn_on_def print_def)
qed

text \<open>
  C4: Pressing while on calls \<^verbatim>\<open>turn_off\<close> of the device, once, and nothing else on it,
  and clears the flag: the world after the press is the world after that one call, and a
  logged device has exactly \<open>Turn_off\<close> added to its log.
\<close>

theorem press_when_on:
  assumes "is_on self"
  shows "press self w = (self\<lparr>is_on := False\<rparr>, turn_off (device self) w) \<and>
         press \<lparr>device = logged d, is_on = is_on self\<rparr> (log, v) =
           (\<lparr>device = logged d, is_on = False\<rparr>, (log @ [Turn_off], turn_off d v))"
  using assms by (simp add: press_unfold logged_def)

theorem press_when_on_witness:
  "is_on (ElectricPowerSwitch_init LightBulb (Some True)) \<and>
   press (ElectricPowerSwitch_init LightBulb (Some True)) [] =
     (\<lparr>device = LightBulb, is_on = False\<rparr>, ''LightBulb: turned off...'' @ [newline]) \<and>
   press (ElectricPowerSwitch_init (logged LightBulb) (Some True)) ([], []) =
     (\<lparr>device = logged LightBulb, is_on = False\<rparr>,
      ([Turn_off], ''LightBulb: turned off...'' @ [newline]))"
proof -
  have h: "is_on (ElectricPowerSwitch_init LightBulb (Some True))"
    by (simp add: ElectricPowerSwitch_init_def)
  show ?thesis
    using h press_when_on [OF h, where w = "[]" and d = LightBulb and log = "[]" and v = "[]"]
    by (simp add: ElectricPowerSwitch_init_def LightBulb_def LightBulb_turn_off_def print_def)
qed

text \<open>
  C3: The claim says that no execution of \<^verbatim>\<open>press\<close> changes the device without the flag.
  On a controller that is off, around a logged device whose \<^verbatim>\<open>turn_on\<close> raises, one press
  makes the call (the log goes from empty to \<open>[Turn_on]\<close>) and leaves through the exception
  with \<^verbatim>\<open>is_on\<close> still false.
\<close>

theorem press_raising_counterexample:
  "press_exc \<lparr>device_exc = logged_exc Broken, is_on_exc = False\<rparr> ([], []) =
     (\<lparr>device_exc = logged_exc Broken, is_on_exc = False\<rparr>, Raises RuntimeError ([Turn_on], [])) \<and>
   fst (world_of (snd (press_exc \<lparr>device_exc = logged_exc Broken, is_on_exc = False\<rparr> ([], [])))) \<noteq> [] \<and>
   is_on_exc (fst (press_exc \<lparr>device_exc = logged_exc Broken, is_on_exc = False\<rparr> ([], []))) = False"
  by (simp add: press_exc_def logged_exc_def Broken_def)

text \<open>
  C3, as amended: Every press, in either state, makes exactly one call on the device
  (\<^verbatim>\<open>turn_off\<close> when on, \<^verbatim>\<open>turn_on\<close> when off), whether that call returns or raises. When the
  call returns, the flag is flipped in the same press; when it raises, the exception leaves
  \<^verbatim>\<open>press\<close> and the controller is unchanged. So the flag changes exactly when the one device
  call returned, and on a device whose methods always return every press does both.
\<close>

theorem press_exc_one_call:
  "press_exc self w =
     (case invoke_exc (device_exc self) (if is_on_exc self then Turn_off else Turn_on) w of
        Returns w1 \<Rightarrow> (self\<lparr>is_on_exc := \<not> is_on_exc self\<rparr>, Returns w1)
      | Raises e w1 \<Rightarrow> (self, Raises e w1)) \<and>
   fst (world_of (snd (press_exc \<lparr>device_exc = logged_exc d, is_on_exc = b\<rparr> (log, v)))) =
     log @ [if b then Turn_off else Turn_on] \<and>
   (is_on_exc (fst (press_exc self w)) \<noteq> is_on_exc self) = returned (snd (press_exc self w)) \<and>
   press_exc \<lparr>device_exc = returning (device s), is_on_exc = is_on s\<rparr> u =
     (\<lparr>device_exc = returning (device s), is_on_exc = \<not> is_on s\<rparr>, Returns (snd (press s u)))"
proof -
  have "press_exc \<lparr>device_exc = returning (device s), is_on_exc = is_on s\<rparr> u =
     (\<lparr>device_exc = returning (device s), is_on_exc = \<not> is_on s\<rparr>, Returns (snd (press s u)))"
    using press_exc_returning [of s u] by (simp add: press_unfold)
  then show ?thesis
    using press_exc_unfold [of self w] press_exc_log [of d b log v] press_exc_flag [of self w]
    by simp
qed

text \<open>
  C5: One press on a fresh controller around the light bulb: the flag is true, the text
  written is the single line of \<^verbatim>\<open>turn_on\<close>, that line occurs once and the line of
  \<^verbatim>\<open>turn_off\<close> does not occur, and the only call on the device is \<open>Turn_on\<close>.
\<close>

theorem fresh_press_once:
  "press (ElectricPowerSwitch_init (logged LightBulb) None) (log, out) =
     (\<lparr>device = logged LightBulb, is_on = True\<rparr>,
      (log @ [Turn_on], out @ ''LightBulb: turned on...'' @ [newline])) \<and>
   is_on (fst (press (ElectricPowerSwitch_init LightBulb None) [])) \<and>
   lines_of (snd (press (ElectricPowerSwitch_init LightBulb None) [])) =
     [''LightBulb: turned on...''] \<and>
   count_list (lines_of (snd (press (ElectricPowerSwitch_init LightBulb None) [])))
     ''LightBulb: turned on...'' = 1 \<and>
   count_list (lines_of (snd (press (ElectricPowerSwitch_init LightBulb None) [])))
     ''LightBulb: turned off...'' = 0"
  by (simp add: press_unfold ElectricPowerSwitch_init_def logged_def LightBulb_def
      LightBulb_turn_on_def print_def lines_of_def newline_def)

text \<open>
  C6: Two presses on a fresh controller around the light bulb: the flag is false again, the
  calls on the device are \<open>Turn_on\<close> then \<open>Turn_off\<close>, and the text written is the line of
  \<^verbatim>\<open>turn_on\<close> followed by the line of \<^verbatim>\<open>turn_off\<close>, each occurring once.
\<close>

theorem fresh_press_twice:
  "presses 2 (ElectricPowerSwitch_init (logged LightBulb) None) (log, out) =
     (\<lparr>device = logged LightBulb, is_on = False\<rparr>,
      (log @ [Turn_on, Turn_off],
       out @ ''LightBulb: turned on...'' @ [newline] @ ''LightBulb: turned off...'' @ [newline])) \<and>
   \<not> is_on (fst (presses 2 (ElectricPowerSwitch_init LightBulb None) [])) \<and>
   lines_of (snd (presses 2 (ElectricPowerSwitch_init LightBulb None) [])) =
     [''LightBulb: turned on...'', ''LightBulb: turned off...''] \<and>
   count_list (lines_of (snd (presses 2 (ElectricPowerSwitch_init LightBulb None) [])))
     ''LightBulb: turned on...'' = 1 \<and>
   count_list (lines_of (snd (presses 2 (ElectricPowerSwitch_init LightBulb None) [])))
     ''LightBulb: turned off...'' = 1"
  by (simp add: numeral_2_eq_2 press_unfold ElectricPowerSwitch_init_def logged_def LightBulb_def
      LightBulb_turn_on_def LightBulb_turn_off_def print_def lines_of_def newline_def)

text \<open>
  C7: The light bulb keeps no state and its methods are total functions of standard output
  alone: every call appends its own line and nothing else, so any sequence of calls writes
  one line per call, in order, and two \<^verbatim>\<open>turn_on\<close> calls in a row write the same line twice.
\<close>

theorem LightBulb_notifies_every_call:
  "invoke LightBulb c out = out @ notification c @ [newline] \<and>
   invoke_all LightBulb cs out = out @ concat (map (\<lambda>c. notification c @ [newline]) cs) \<and>
   lines_of (invoke_all LightBulb cs []) = map notification cs \<and>
   length (lines_of (invoke_all LightBulb cs [])) = length cs \<and>
   turn_on LightBulb (turn_on LightBulb out) =
     out @ ''LightBulb: turned on...'' @ [newline] @ ''LightBulb: turned on...'' @ [newline]"
  by (simp add: invoke_LightBulb invoke_all_LightBulb lines_of_notifications)
     (simp add: LightBulb_def LightBulb_turn_on_def print_def)

text \<open>
  C8: \<^verbatim>\<open>main\<close> is two presses on a fresh controller around one light bulb. It appends two
  lines to standard output, the text of \<^verbatim>\<open>LightBulb.turn_on\<close> and then the text of
  \<^verbatim>\<open>LightBulb.turn_off\<close>; on an empty standard output these are the only two lines.
\<close>

theorem main_prints_on_then_off:
  "main out = out @ ''LightBulb: turned on...'' @ [newline] @ ''LightBulb: turned off...'' @ [newline] \<and>
   main out = turn_off LightBulb (turn_on LightBulb out) \<and>
   main out = snd (presses 2 (ElectricPowerSwitch_init LightBulb None) out) \<and>
   fst (snd (presses 2 (ElectricPowerSwitch_init (logged LightBulb) None) ([], out))) = [Turn_on, Turn_off] \<and>
   lines_of (main []) = [''LightBulb: turned on...'', ''LightBulb: turned off...'']"
  by (simp add: main_def numeral_2_eq_2 press_unfold ElectricPowerSwitch_init_def logged_def LightBulb_def
      LightBulb_turn_on_def LightBulb_turn_off_def print_def lines_of_def newline_def)

text \<open>
  C9: Two presses in a row leave the flag as it was before the first, whichever value it
  had.
\<close>

theorem press_twice_is_on:
  "is_on (fst (press (fst (press self w)) (snd (press self w)))) = is_on self \<and>
   is_on (fst (presses 2 self w)) = is_on self"
  by (simp add: numeral_2_eq_2 press_unfold)

text \<open>
  C10: A press leaves the \<^verbatim>\<open>device\<close> field as it was: the controller after the press is the
  controller before it with only \<^verbatim>\<open>is_on\<close> set anew.
\<close>

theorem press_keeps_device:
  "device (fst (press self w)) = device self \<and>
   fst (press self w) = self\<lparr>is_on := is_on (fst (press self w))\<rparr>"
  by (simp add: press_unfold)


end
